theory Spec2Isabelle
  imports Main
begin

section \<open>The crisis state reducer\<close>

text \<open>
  Source: the finite state machine of the crisis-flow guideline
  (\<^verbatim>\<open>.cursor/rules/userdoc-guidelines.md\<close>, "Positive Example (State Machine
  Implementation)").

  \<^verbatim>\<open>GriefOpsStates\<close> is a constant object whose values are the seven state strings;
  \<^verbatim>\<open>GriefOpsState\<close> is the union of those strings. \<^verbatim>\<open>TransitionEvent\<close> is a tagged
  union whose only field is the tag \<^verbatim>\<open>type\<close>, with five tags.
\<close>

datatype GriefOpsState =
  idle | normal | crisis_detected | night_watch | locked | recovery | stand_down

datatype TransitionEvent =
  ESCALATE_CRISIS | DEESCALATE | LOCK | STAND_DOWN | ABANDON_ATTEMPT

text \<open>
  \<^verbatim>\<open>
  function crisisStateReducer(state, event) {
    switch (state) {
      case 'normal':
        if (event.type === 'ESCALATE_CRISIS') return 'crisis_detected';
        break;
      case 'crisis_detected':
        if (event.type === 'LOCK') return 'locked';
        if (event.type === 'STAND_DOWN') return 'night_watch';
        break;
      case 'night_watch':
        if (event.type === 'DEESCALATE') return 'recovery';
        break;
      // ...other transitions
    }
    return state; // Default: state unchanged on invalid event
  }
  \<close>
  Every path ends in a \<^verbatim>\<open>return\<close>; the body has no \<^verbatim>\<open>throw\<close> and calls nothing, so
  the function is a total HOL function with no error branch.
\<close>

definition crisisStateReducer :: "GriefOpsState \<Rightarrow> TransitionEvent \<Rightarrow> GriefOpsState" where
  "crisisStateReducer state event =
     (case state of
        normal \<Rightarrow>
          (if event = ESCALATE_CRISIS then crisis_detected else state)
      | crisis_detected \<Rightarrow>
          (if event = LOCK then locked
           else if event = STAND_DOWN then night_watch
           else state)
      | night_watch \<Rightarrow>
          (if event = DEESCALATE then recovery else state)
      | _ \<Rightarrow> state)"

text \<open>
  What a call does besides returning. The body is made of comparisons and \<^verbatim>\<open>return\<close>
  statements only: on no path does it call a logger, write to storage or touch anything
  outside its two arguments. The records it writes are therefore none.
\<close>

datatype reducer_effect = LogRejectedEvent GriefOpsState TransitionEvent

definition crisisStateReducer_effects ::
  "GriefOpsState \<Rightarrow> TransitionEvent \<Rightarrow> reducer_effect list" where
  "crisisStateReducer_effects state event = []"

text \<open>Replaying a sequence of events: the reducer is applied to each event in turn.\<close>

fun replay :: "GriefOpsState \<Rightarrow> TransitionEvent list \<Rightarrow> GriefOpsState" where
  "replay s [] = s"
| "replay s (e # es) = replay (crisisStateReducer s e) es"

text \<open>
  The same code read as a relation between a call and what it can return: one rule for
  each \<^verbatim>\<open>return\<close> statement, guarded by the tests that lead to it. The last rule is the
  final \<^verbatim>\<open>return state\<close>, reached when none of the earlier ones fired.
\<close>

inductive returns :: "GriefOpsState \<Rightarrow> TransitionEvent \<Rightarrow> GriefOpsState \<Rightarrow> bool" where
  ret_escalate: "returns normal ESCALATE_CRISIS crisis_detected"
| ret_lock: "returns crisis_detected LOCK locked"
| ret_stand_down: "returns crisis_detected STAND_DOWN night_watch"
| ret_deescalate: "returns night_watch DEESCALATE recovery"
| ret_default:
    "(s, e) \<notin> {(normal, ESCALATE_CRISIS), (crisis_detected, LOCK),
                (crisis_detected, STAND_DOWN), (night_watch, DEESCALATE)}
     \<Longrightarrow> returns s e s"

inductive replays :: "GriefOpsState \<Rightarrow> TransitionEvent list \<Rightarrow> GriefOpsState \<Rightarrow> bool" where
  replays_done: "replays s [] s"
| replays_step: "returns s e s' \<Longrightarrow> replays s' es t \<Longrightarrow> replays s (e # es) t"

code_pred returns .
code_pred replays .

text \<open>
  The transition table as the specification lists it, for the events of the source's
  \<^verbatim>\<open>TransitionEvent\<close> type (the specification's \<^verbatim>\<open>RESUME\<close> row is the restart procedure
  and is not an event of that type).
\<close>

definition spec_transition_table ::
  "((GriefOpsState \<times> TransitionEvent) \<times> GriefOpsState) list" where
  "spec_transition_table =
     [((normal, ESCALATE_CRISIS), crisis_detected),
      ((crisis_detected, LOCK), locked),
      ((crisis_detected, STAND_DOWN), night_watch),
      ((night_watch, DEESCALATE), recovery),
      ((recovery, STAND_DOWN), stand_down),
      ((locked, ABANDON_ATTEMPT), locked)]"

section \<open>The Ops Selector screen\<close>

text \<open>
  Source: \<^verbatim>\<open>src/features/opsSelector/screens/OpsSelectorScreen.tsx\<close> and the root
  navigator that follows it. \<^verbatim>\<open>Routes\<close>, \<^verbatim>\<open>FeatureFlags\<close> and \<^verbatim>\<open>OpsSelectorCopy\<close>
  are imported from files that are not part of the sources: the route names are the keys
  the two components use, the flag and the copy strings are parameters.
\<close>

datatype Route =
  OPS_SELECTOR | DEPLOYMENT_BRIEFING | LOCKED_MODE_BRIEFING | NIGHT_WATCH | FOREMAN
  | ROAD_CAPTAIN_LOCKED

record FeatureFlags =
  ROAD_CAPTAIN_ENABLED :: bool

record OpsSelectorCopy =
  copy_title :: string
  copy_action_NIGHT_WATCH :: string
  copy_action_FOREMAN :: string
  copy_action_ROAD_CAPTAIN :: string

text \<open>
  The only thing a handler of this screen does is call \<^verbatim>\<open>nav.navigate(route)\<close> on the
  navigation object of \<^verbatim>\<open>useNavigation\<close>. A handler \<^verbatim>\<open>() => nav.navigate(r)\<close> is the
  list of calls it makes when invoked.
\<close>

datatype ui_effect = NavNavigate Route

record ButtonProps =
  title :: string
  onPress :: "ui_effect list"
  disabled :: bool

datatype element = TextEl string string | ButtonEl ButtonProps

text \<open>
  The children of the screen's \<^verbatim>\<open>View\<close>, in order. The first two buttons pass no
  \<^verbatim>\<open>disabled\<close> prop (so it is not set); the third passes the feature flag itself.
\<close>

definition OpsSelectorScreen :: "OpsSelectorCopy \<Rightarrow> FeatureFlags \<Rightarrow> element list" where
  "OpsSelectorScreen copy flags =
     [TextEl ''h1'' (copy_title copy),
      ButtonEl \<lparr>title = copy_action_NIGHT_WATCH copy,
                onPress = [NavNavigate NIGHT_WATCH],
                disabled = False\<rparr>,
      ButtonEl \<lparr>title = copy_action_FOREMAN copy,
                onPress = [NavNavigate FOREMAN],
                disabled = False\<rparr>,
      ButtonEl \<lparr>title = copy_action_ROAD_CAPTAIN copy @ '' (Locked)'',
                onPress = [NavNavigate ROAD_CAPTAIN_LOCKED],
                disabled = ROAD_CAPTAIN_ENABLED flags\<rparr>]"

fun buttons :: "element list \<Rightarrow> ButtonProps list" where
  "buttons [] = []"
| "buttons (TextEl v t # els) = buttons els"
| "buttons (ButtonEl b # els) = b # buttons els"

text \<open>
  The shared \<^verbatim>\<open>Button\<close> component is not part of the sources. Its \<^verbatim>\<open>disabled\<close> prop is
  read as React Native reads it: a disabled button does not respond to a press, an enabled
  one runs its \<^verbatim>\<open>onPress\<close> handler.
\<close>

definition interactive :: "ButtonProps \<Rightarrow> bool" where
  "interactive b = (\<not> disabled b)"

definition press :: "ButtonProps \<Rightarrow> ui_effect list" where
  "press b = (if disabled b then [] else onPress b)"

text \<open>
  \<^verbatim>\<open>RootNavigator\<close>: a native stack with six registered screens, mounted at
  \<^verbatim>\<open>Routes.OPS_SELECTOR\<close>.
\<close>

definition RootNavigator_initialRouteName :: Route where
  "RootNavigator_initialRouteName = OPS_SELECTOR"

definition RootNavigator_screens :: "(Route \<times> string) list" where
  "RootNavigator_screens =
     [(OPS_SELECTOR, ''OpsSelectorScreen''),
      (DEPLOYMENT_BRIEFING, ''DeploymentBriefingScreen''),
      (LOCKED_MODE_BRIEFING, ''LockedModeBriefingScreen''),
      (NIGHT_WATCH, ''NightWatchHome''),
      (FOREMAN, ''ForemanHome''),
      (ROAD_CAPTAIN_LOCKED, ''RoadCaptainLocked'')]"

section \<open>The mode-aware route guard\<close>

text \<open>
  Source: "Example: Mode-aware Route Guard, Positive Implementation" and the example route
  metadata of the routing guideline.
  \<^verbatim>\<open>
  { name: 'NightWatchPanicScreen', component: NightWatchPanicScreen,
    allowedModes: ['NightWatch'], allowBack: false, requiresConfirmationToExit: true }

  function canNavigate(targetRoute, userState) {
    if (!targetRoute.allowedModes.includes(userState.currentMode)) { return false; }
    return true;
  }
  onNavigate = (targetRoute) => {
    if (!canNavigate(targetRoute, userState)) {
      showContainmentMessage("Navigation disabled in this mode.");
      return;
    }
    navigate(targetRoute.name);
  }
  \<close>
  The guard reads one field of \<^verbatim>\<open>userState\<close>, the current mode, and the route's
  \<^verbatim>\<open>allowedModes\<close>; it takes no event and knows no reserved route. \<^verbatim>\<open>userState\<close> is a
  variable of the enclosing scope in the source and a parameter here. The type of modes is
  left open: the example metadata names Ops Modes, the state machine names its states.
\<close>

record 'm UserState =
  currentMode :: 'm

record 'm RouteConfig =
  name :: string
  component :: string
  allowedModes :: "'m list"
  allowBack :: bool
  requiresConfirmationToExit :: bool


definition canNavigate :: "'m RouteConfig \<Rightarrow> 'm UserState \<Rightarrow> bool" where
  "canNavigate targetRoute userState =
     (if \<not> (currentMode userState \<in> set (allowedModes targetRoute)) then False
      else True)"



section \<open>The persisted tables\<close>

text \<open>
  Modelled from the spec: the persisted layout (OperationalState, SessionRecord,
  JournalEntry and ContentCacheEntry tables) has no declaration in the sources. The
  records below follow the specification's data model field by field; timestamps and
  identifiers are natural numbers, opaque payloads are strings.
\<close>

record OperationalState =
  currentMode :: GriefOpsState
  currentRoute :: Route
  enteredAt :: nat
  contextToken :: "nat option"

datatype SessionStatus = ACTIVE | COMPLETED | ABANDONED | RECOVERED

record SessionRecord =
  session_id :: nat
  session_mode :: GriefOpsState
  startedAt :: nat
  lastCheckpointAt :: nat
  payload :: string
  status :: SessionStatus

record ContentCacheEntry =
  sourceId :: nat
  fetchedAt :: nat
  validatedAt :: nat
  content :: string

record Intent =
  intent_event :: TransitionEvent
  intent_route :: Route
  intent_context :: "nat option"

record JournalEntry =
  sequenceNumber :: nat
  intent :: Intent
  targetState :: GriefOpsState
  timestamp :: nat
  committed :: bool

record database =
  operationalState :: OperationalState
  sessionRecords :: "SessionRecord list"
  journal :: "JournalEntry list"
  contentCache :: "ContentCacheEntry list"

section \<open>Content sync\<close>

text \<open>
  Source: "Robust Sync Logic with Error Handling" of the offline-first guideline.
  \<^verbatim>\<open>
  async function syncContent() {
    try {
      if (!networkAvailable()) return;
      const updates = await fetchRemoteContent();
      await db.saveContent(updates);
    } catch (err) {
      logSyncFailure(err); // local logging only
    }
  }
  \<close>
  The four functions it calls are not part of the sources. What they answer in one run is
  the run's environment: \<^verbatim>\<open>networkAvailable\<close> and \<^verbatim>\<open>fetchRemoteContent\<close> return a value
  or throw (\<open>Inl\<close> is the thrown value); \<^verbatim>\<open>logSyncFailure\<close> is recorded as a call.
\<close>

type_synonym thrown = string

type_synonym updates = "(nat \<times> string) list"

text \<open>
  Modelled from the spec: \<^verbatim>\<open>db.saveContent\<close> is not part of the sources. By the
  specification the reconciler's write goes to ContentCacheEntry rows, one transaction per
  batch: the call either throws and leaves the rows as they were, or replaces the rows. It
  is a parameter that maps the batch and the current rows to the new rows, or throws.
\<close>

record sync_env =
  networkAvailable :: "thrown + bool"
  fetchRemoteContent :: "thrown + updates"
  saveContent :: "updates \<Rightarrow> ContentCacheEntry list \<Rightarrow> thrown + ContentCacheEntry list"

datatype sync_call = SaveContent updates | LogSyncFailure thrown

text \<open>
  One run: the calls it makes to the database and to the failure log, in order, and the
  database afterwards. An exception anywhere in the \<^verbatim>\<open>try\<close> block lands in the
  \<^verbatim>\<open>catch\<close>, which logs it.
\<close>

definition syncContent :: "sync_env \<Rightarrow> database \<Rightarrow> sync_call list \<times> database" where
  "syncContent env db =
     (case networkAvailable env of
        Inl err \<Rightarrow> ([LogSyncFailure err], db)
      | Inr online \<Rightarrow>
          if \<not> online then ([], db)
          else
            (case fetchRemoteContent env of
               Inl err \<Rightarrow> ([LogSyncFailure err], db)
             | Inr updates \<Rightarrow>
                 (case saveContent env updates (contentCache db) of
                    Inl err \<Rightarrow> ([SaveContent updates, LogSyncFailure err], db)
                  | Inr rows \<Rightarrow> ([SaveContent updates], db\<lparr>contentCache := rows\<rparr>))))"

text \<open>
  A run that is cut off: the process stops after \<open>k\<close> of the run's calls have
  completed (\<^verbatim>\<open>networkAvailable\<close>, \<^verbatim>\<open>fetchRemoteContent\<close>, \<^verbatim>\<open>db.saveContent\<close>,
  \<^verbatim>\<open>logSyncFailure\<close>, in the order the run reaches them). A call that has not completed
  has had no effect; \<^verbatim>\<open>db.saveContent\<close> is one transaction, so it has either completed
  or not.
\<close>

definition syncContent_cut ::
  "nat \<Rightarrow> sync_env \<Rightarrow> database \<Rightarrow> sync_call list \<times> database" where
  "syncContent_cut k env db =
     (if k = 0 then ([], db)
      else
        (case networkAvailable env of
           Inl err \<Rightarrow> (if 2 \<le> k then ([LogSyncFailure err], db) else ([], db))
         | Inr online \<Rightarrow>
             if \<not> online then ([], db)
             else if k = 1 then ([], db)
             else
               (case fetchRemoteContent env of
                  Inl err \<Rightarrow> (if 3 \<le> k then ([LogSyncFailure err], db) else ([], db))
                | Inr updates \<Rightarrow>
                    if k = 2 then ([], db)
                    else
                      (case saveContent env updates (contentCache db) of
                         Inl err \<Rightarrow>
                           (if 4 \<le> k then ([SaveContent updates, LogSyncFailure err], db)
                            else ([SaveContent updates], db))
                       | Inr rows \<Rightarrow>
                           ([SaveContent updates], db\<lparr>contentCache := rows\<rparr>)))))"

text \<open>Calling \<^verbatim>\<open>syncContent\<close> \<open>n\<close> times in a row with the same environment.\<close>

fun sync_times :: "nat \<Rightarrow> sync_env \<Rightarrow> database \<Rightarrow> sync_call list \<times> database" where
  "sync_times 0 env db = ([], db)"
| "sync_times (Suc n) env db =
     (let (calls, db') = syncContent env db;
          (calls', db'') = sync_times n env db'
      in (calls @ calls', db''))"

fun cache_writes :: "sync_call list \<Rightarrow> updates list" where
  "cache_writes [] = []"
| "cache_writes (SaveContent u # cs) = u # cache_writes cs"
| "cache_writes (LogSyncFailure e # cs) = cache_writes cs"

text \<open>
  A concrete environment and database to run the model on. \<open>replace_rows\<close> is one
  implementation of the \<^verbatim>\<open>db.saveContent\<close> parameter: each row of the batch replaces the
  cached row with its \<open>sourceId\<close>, or is added.
\<close>

fun replace_row :: "nat \<times> string \<Rightarrow> ContentCacheEntry list \<Rightarrow> ContentCacheEntry list" where
  "replace_row (i, c) [] =
     [\<lparr>sourceId = i, fetchedAt = 0, validatedAt = 0, content = c\<rparr>]"
| "replace_row (i, c) (r # rs) =
     (if sourceId r = i then r\<lparr>content := c\<rparr> # rs else r # replace_row (i, c) rs)"

definition replace_rows ::
  "updates \<Rightarrow> ContentCacheEntry list \<Rightarrow> thrown + ContentCacheEntry list" where
  "replace_rows u rows = Inr (fold replace_row u rows)"

definition online_env :: sync_env where
  "online_env =
     \<lparr>networkAvailable = Inr True,
      fetchRemoteContent = Inr [(1, ''script'')],
      saveContent = replace_rows\<rparr>"

definition fresh_database :: database where
  "fresh_database =
     \<lparr>operationalState =
        \<lparr>currentMode = idle, currentRoute = OPS_SELECTOR, enteredAt = 0,
         contextToken = None\<rparr>,
      sessionRecords = [],
      journal = [],
      contentCache = []\<rparr>"

section \<open>The write-ahead journal and restart\<close>

text \<open>
  Modelled from the spec: the Write-Ahead Session Journal is not part of the sources.
  \<^verbatim>\<open>append(intent, targetState)\<close> adds an entry with \<open>committed = false\<close> at the end of
  the log and returns its sequence number; \<^verbatim>\<open>markCommitted(sequenceNumber)\<close> flips the
  flag of that entry; \<^verbatim>\<open>replayUncommitted()\<close> lists the entries still uncommitted, in
  order.
\<close>

definition journal_append ::
  "Intent \<Rightarrow> GriefOpsState \<Rightarrow> nat \<Rightarrow> database \<Rightarrow> nat \<times> database" where
  "journal_append i target now db =
     (length (journal db),
      db\<lparr>journal := journal db @
           [\<lparr>sequenceNumber = length (journal db), intent = i, targetState = target,
             timestamp = now, committed = False\<rparr>]\<rparr>)"

definition markCommitted :: "nat \<Rightarrow> database \<Rightarrow> database" where
  "markCommitted n db =
     db\<lparr>journal :=
          map (\<lambda>e. if sequenceNumber e = n then e\<lparr>committed := True\<rparr> else e) (journal db)\<rparr>"

definition replayUncommitted :: "database \<Rightarrow> JournalEntry list" where
  "replayUncommitted db = filter (\<lambda>e. \<not> committed e) (journal db)"

text \<open>
  Modelled from the spec: the State Machine's mutation of the OperationalState is not part
  of the sources; its transition function is \<open>crisisStateReducer\<close> above. The mutation
  for an intent overwrites the record: the mode is the reducer's result for the intent's
  event, the route and the context token are the intent's, the entry time is the time the
  intent was journalled.
\<close>

definition apply_mutation :: "Intent \<Rightarrow> nat \<Rightarrow> OperationalState \<Rightarrow> OperationalState" where
  "apply_mutation i at st =
     \<lparr>currentMode = crisisStateReducer (currentMode st) (intent_event i),
      currentRoute = intent_route i,
      enteredAt = at,
      contextToken = intent_context i\<rparr>"

text \<open>
  Modelled from the spec: the three durable steps of a transition, in the order the
  specification gives them (journal the intent with its target state, apply the mutation,
  mark the entry committed), and the states in which a process that stops between the
  append and the commit-mark leaves the store.
\<close>

definition step_append :: "Intent \<Rightarrow> nat \<Rightarrow> database \<Rightarrow> nat \<times> database" where
  "step_append i now db =
     journal_append i
       (crisisStateReducer (currentMode (operationalState db)) (intent_event i)) now db"

definition step_apply :: "Intent \<Rightarrow> nat \<Rightarrow> database \<Rightarrow> database" where
  "step_apply i now db = db\<lparr>operationalState := apply_mutation i now (operationalState db)\<rparr>"

definition complete_transition :: "Intent \<Rightarrow> nat \<Rightarrow> database \<Rightarrow> database" where
  "complete_transition i now db =
     (let (n, db1) = step_append i now db
      in markCommitted n (step_apply i now db1))"

datatype crash_point = AfterAppend | AfterApply

fun crashed_transition :: "crash_point \<Rightarrow> Intent \<Rightarrow> nat \<Rightarrow> database \<Rightarrow> database" where
  "crashed_transition AfterAppend i now db = snd (step_append i now db)"
| "crashed_transition AfterApply i now db = step_apply i now (snd (step_append i now db))"

text \<open>
  Modelled from the spec: restart (repair-on-read) is not part of the sources. The state
  is rebuilt from the journal alone: the last entry with \<open>committed = true\<close> gives the
  state (its target state, and the route, context and time it recorded); without such an
  entry the state is the one created at first launch, mode \<open>idle\<close> on the navigator's
  initial route. If the most recent entry is uncommitted, its mutation is applied to that
  state from the intent, and the entry is marked committed. The result lists the sequence
  numbers the restart marked.
\<close>

definition initial_state :: OperationalState where
  "initial_state =
     \<lparr>currentMode = idle, currentRoute = RootNavigator_initialRouteName, enteredAt = 0,
      contextToken = None\<rparr>"

definition state_of_entry :: "JournalEntry \<Rightarrow> OperationalState" where
  "state_of_entry e =
     \<lparr>currentMode = targetState e,
      currentRoute = intent_route (intent e),
      enteredAt = timestamp e,
      contextToken = intent_context (intent e)\<rparr>"

definition last_committed_state :: "JournalEntry list \<Rightarrow> OperationalState" where
  "last_committed_state js =
     (if filter committed js = [] then initial_state
      else state_of_entry (last (filter committed js)))"

definition restart :: "database \<Rightarrow> nat list \<times> database" where
  "restart db =
     (let base = last_committed_state (journal db)
      in if journal db = [] \<or> committed (last (journal db))
         then ([], db\<lparr>operationalState := base\<rparr>)
         else ([sequenceNumber (last (journal db))],
               markCommitted (sequenceNumber (last (journal db)))
                 (db\<lparr>operationalState :=
                       apply_mutation (intent (last (journal db)))
                         (timestamp (last (journal db))) base\<rparr>)))"

text \<open>
  A store at rest: every journal entry is committed and the OperationalState is the one
  the journal records.
\<close>

definition consistent :: "database \<Rightarrow> bool" where
  "consistent db \<longleftrightarrow>
     list_all committed (journal db)
     \<and> operationalState db = last_committed_state (journal db)"

text \<open>
  A store at rest in mode \<open>night_watch\<close>, to run the restart on: one committed entry
  records the entry into Night Watch.
\<close>

definition night_watch_database :: database where
  "night_watch_database =
     \<lparr>operationalState =
        \<lparr>currentMode = night_watch, currentRoute = NIGHT_WATCH, enteredAt = 10,
         contextToken = Some 7\<rparr>,
      sessionRecords =
        [\<lparr>session_id = 7, session_mode = night_watch, startedAt = 10,
          lastCheckpointAt = 10, payload = ''containment'', status = ACTIVE\<rparr>],
      journal =
        [\<lparr>sequenceNumber = 0,
          intent = \<lparr>intent_event = STAND_DOWN, intent_route = NIGHT_WATCH,
                    intent_context = Some 7\<rparr>,
          targetState = night_watch, timestamp = 10, committed = True\<rparr>],
      contentCache = []\<rparr>"

section \<open>The navigation guard\<close>

text \<open>
  Modelled from the spec: \<^verbatim>\<open>requestTransition\<close> and the Durable Store are not part of
  the sources. A route's static permission record is the route metadata of the guideline
  above (\<open>allowedModes\<close>, \<open>allowBack\<close>, and the confirmation flag); the table and the
  reserved panic route are parameters. A request carries the target route, the event, the
  caller's confirmation token if any, and the time. What the store answers to the writes
  of step 5 is a parameter too: it persists them, or fails with one of its three failure
  modes.
\<close>

record guard_config =
  permissions :: "Route \<Rightarrow> GriefOpsState RouteConfig"
  panicRoute :: Route

record TransitionRequest =
  targetRoute :: Route
  event :: TransitionEvent
  confirmationToken :: "nat option"
  requestedAt :: nat

datatype StorageFailure = STORAGE_FULL | STORAGE_CORRUPT | WRITE_TIMEOUT

datatype store_answer = Persisted | Failed StorageFailure

datatype RejectReason =
  Containment GriefOpsState Route
  | EventRejected GriefOpsState TransitionEvent
  | ConfirmationRequired Route
  | PersistenceFailure StorageFailure

datatype GuardResult = Approved Route | Rejected RejectReason

text \<open>
  Modelled from the spec: the State Machine rejects an event for a state when the
  transition is the identity, that is when the reducer returns the state it was given.
\<close>

definition state_machine_rejects :: "GriefOpsState \<Rightarrow> TransitionEvent \<Rightarrow> bool" where
  "state_machine_rejects m e = (crisisStateReducer m e = m)"

text \<open>
  Modelled from the spec: the reserved panic request, the reserved route asked for with
  \<^verbatim>\<open>ESCALATE_CRISIS\<close>. The specification exempts it from the \<open>allowedModes\<close> check, and
  from that check only.
\<close>

definition panic_request :: "guard_config \<Rightarrow> TransitionRequest \<Rightarrow> bool" where
  "panic_request cfg req = (targetRoute req = panicRoute cfg \<and> event req = ESCALATE_CRISIS)"

text \<open>
  Modelled from the spec: \<^verbatim>\<open>requestTransition(targetRoute, event)\<close>, the five steps of
  the Guard's algorithm in order. Step 2 is the source's \<open>canNavigate\<close> on the current
  mode, with the specification's exemption of the panic request; step 3 is the State
  Machine's verdict, for every request; step 4 asks for the confirmation token where the
  route requires confirmation. The intent of a request is its event and target route, with
  the context token of the session in progress. A rejection writes nothing. At step 5,
  when the store persists the writes, the intent is journalled, the mutation applied and
  the entry marked committed, and only then is the request approved. When the store fails
  the transition is aborted with none of its writes applied (the Durable Store's
  atomicity): the request is rejected, the OperationalState is the prior one, and the
  journal holds no intent of the aborted transition for a later restart to apply.
\<close>

definition intent_of :: "TransitionRequest \<Rightarrow> database \<Rightarrow> Intent" where
  "intent_of req db =
     \<lparr>intent_event = event req, intent_route = targetRoute req,
      intent_context = contextToken (operationalState db)\<rparr>"

definition requestTransition ::
  "guard_config \<Rightarrow> store_answer \<Rightarrow> TransitionRequest \<Rightarrow> database \<Rightarrow> GuardResult \<times> database"
  where
  "requestTransition cfg store req db =
     (let perm = permissions cfg (targetRoute req);
          mode = currentMode (operationalState db)
      in if \<not> panic_request cfg req
            \<and> \<not> canNavigate perm \<lparr>UserState.currentMode = mode\<rparr>
         then (Rejected (Containment mode (targetRoute req)), db)
         else if state_machine_rejects mode (event req)
         then (Rejected (EventRejected mode (event req)), db)
         else if requiresConfirmationToExit perm \<and> confirmationToken req = None
         then (Rejected (ConfirmationRequired (targetRoute req)), db)
         else
           (case store of
              Failed f \<Rightarrow> (Rejected (PersistenceFailure f), db)
            | Persisted \<Rightarrow>
                (Approved (targetRoute req),
                 complete_transition (intent_of req db) (requestedAt req) db)))"



section \<open>Properties of the reducer\<close>

lemma returns_iff_reducer: "returns s e t \<longleftrightarrow> t = crisisStateReducer s e"
proof
  assume "returns s e t"
  then show "t = crisisStateReducer s e"
    by (induction rule: returns.induct)
       (auto simp: crisisStateReducer_def split: GriefOpsState.splits)
next
  assume t: "t = crisisStateReducer s e"
  show "returns s e t"
    unfolding t
    by (cases s; cases e)
       (simp_all add: crisisStateReducer_def returns.intros)
qed

lemma replays_iff_replay: "replays s es t \<longleftrightarrow> t = replay s es"
proof
  assume "replays s es t"
  then show "t = replay s es"
    by (induction rule: replays.induct) (simp_all add: returns_iff_reducer)
next
  assume "t = replay s es"
  then show "replays s es t"
  proof (induction es arbitrary: s)
    case Nil
    then show ?case by (simp add: replays_done)
  next
    case (Cons e es)
    have "returns s e (crisisStateReducer s e)"
      by (simp add: returns_iff_reducer)
    moreover have "replays (crisisStateReducer s e) es t"
      using Cons by simp
    ultimately show ?case by (rule replays_step)
  qed
qed

text \<open>
  C4. The transition function is deterministic: for every start state and every sequence
  of events, a replay has exactly one possible final state, so two runs of the same
  sequence from the same start agree.
\<close>

theorem replay_deterministic:
  "(\<exists>t. replays s es t) \<and> (\<forall>t1 t2. replays s es t1 \<and> replays s es t2 \<longrightarrow> t1 = t2)"
  by (simp add: replays_iff_replay)

theorem replay_deterministic_witness:
  "replays normal [ESCALATE_CRISIS, ABANDON_ATTEMPT, LOCK] locked
   \<and> replay normal [ESCALATE_CRISIS, ABANDON_ATTEMPT, LOCK] = locked"
proof -
  have a: "replays normal [ESCALATE_CRISIS, ABANDON_ATTEMPT, LOCK] locked"
    by (simp add: replays_iff_replay crisisStateReducer_def)
  have b: "replays normal [ESCALATE_CRISIS, ABANDON_ATTEMPT, LOCK]
             (replay normal [ESCALATE_CRISIS, ABANDON_ATTEMPT, LOCK])"
    unfolding replays_iff_replay ..
  from replay_deterministic [of normal "[ESCALATE_CRISIS, ABANDON_ATTEMPT, LOCK]"] a b
  show ?thesis by blast
qed

text \<open>
  C5 (as amended). For every state and every event with no row for that state in the
  transition table, the reducer returns the state it was given; it returns normally, having
  no error branch, and writes no record.
\<close>

theorem unlisted_event_identity:
  "map_of spec_transition_table (s, e) = None \<Longrightarrow>
   crisisStateReducer s e = s \<and> crisisStateReducer_effects s e = []"
  by (cases s; cases e)
     (simp_all add: spec_transition_table_def crisisStateReducer_def
        crisisStateReducer_effects_def)

theorem unlisted_event_identity_witness:
  "map_of spec_transition_table (idle, LOCK) = None
   \<and> crisisStateReducer idle LOCK = idle
   \<and> crisisStateReducer_effects idle LOCK = []"
proof -
  have h: "map_of spec_transition_table (idle, LOCK) = None"
    by (simp add: spec_transition_table_def)
  from unlisted_event_identity [OF h] h show ?thesis by simp
qed

text \<open>
  C5 as stated fails: \<^verbatim>\<open>LOCK\<close> has no row for \<^verbatim>\<open>idle\<close>, the reducer returns \<^verbatim>\<open>idle\<close>, and
  no rejected-event record is written by the call.
\<close>

theorem unlisted_event_not_logged:
  "map_of spec_transition_table (idle, LOCK) = None
   \<and> crisisStateReducer idle LOCK = idle
   \<and> LogRejectedEvent idle LOCK \<notin> set (crisisStateReducer_effects idle LOCK)"
  by (simp add: spec_transition_table_def crisisStateReducer_def
        crisisStateReducer_effects_def)

text \<open>
  C6 (as amended). In state \<^verbatim>\<open>locked\<close> the event \<^verbatim>\<open>ABANDON_ATTEMPT\<close> leaves the state
  \<^verbatim>\<open>locked\<close>, also when the attempt is repeated any number of times; the reducer writes
  no record of it.
\<close>

theorem locked_abandon_stays_locked:
  "crisisStateReducer locked ABANDON_ATTEMPT = locked
   \<and> replay locked (replicate n ABANDON_ATTEMPT) = locked
   \<and> crisisStateReducer_effects locked ABANDON_ATTEMPT = []"
proof -
  have one: "crisisStateReducer locked ABANDON_ATTEMPT = locked"
    by (simp add: crisisStateReducer_def)
  have many: "replay locked (replicate n ABANDON_ATTEMPT) = locked"
    by (induction n) (simp_all add: one)
  from one many show ?thesis
    by (simp add: crisisStateReducer_effects_def)
qed

text \<open>
  C6 as stated fails: the state stays \<^verbatim>\<open>locked\<close>, but the call writes no rejection
  record of the abandonment.
\<close>

theorem locked_abandon_not_logged:
  "\<not> (crisisStateReducer locked ABANDON_ATTEMPT = locked
      \<and> LogRejectedEvent locked ABANDON_ATTEMPT
          \<in> set (crisisStateReducer_effects locked ABANDON_ATTEMPT))"
  by (simp add: crisisStateReducer_effects_def)

section \<open>Properties of the Ops Selector screen\<close>

lemma buttons_OpsSelectorScreen:
  "buttons (OpsSelectorScreen copy flags) =
     [\<lparr>title = copy_action_NIGHT_WATCH copy, onPress = [NavNavigate NIGHT_WATCH],
       disabled = False\<rparr>,
      \<lparr>title = copy_action_FOREMAN copy, onPress = [NavNavigate FOREMAN],
       disabled = False\<rparr>,
      \<lparr>title = copy_action_ROAD_CAPTAIN copy @ '' (Locked)'',
       onPress = [NavNavigate ROAD_CAPTAIN_LOCKED],
       disabled = ROAD_CAPTAIN_ENABLED flags\<rparr>]"
  by (simp add: OpsSelectorScreen_def)

text \<open>
  C2. Pressing the Night Watch or the Foreman button of the Ops Selector screen does one
  thing only: it calls \<^verbatim>\<open>nav.navigate\<close> with the button's route. Nothing is consulted and
  nothing is persisted before the navigator is told to show the new screen.
\<close>

theorem ops_selector_press_navigates_directly:
  "map press (take 2 (buttons (OpsSelectorScreen copy flags))) =
     [[NavNavigate NIGHT_WATCH], [NavNavigate FOREMAN]]"
  by (simp add: buttons_OpsSelectorScreen press_def)

text \<open>
  C10. The third button of the Ops Selector screen is the Road Captain entry. Its handler
  always targets \<^verbatim>\<open>ROAD_CAPTAIN_LOCKED\<close>; it is interactive exactly when
  \<^verbatim>\<open>FeatureFlags.ROAD_CAPTAIN_ENABLED\<close> is false, so a press navigates there while the
  flag is off and does nothing once the flag is on.
\<close>

theorem road_captain_button:
  "title (buttons (OpsSelectorScreen copy flags) ! 2)
     = copy_action_ROAD_CAPTAIN copy @ '' (Locked)''
   \<and> onPress (buttons (OpsSelectorScreen copy flags) ! 2)
     = [NavNavigate ROAD_CAPTAIN_LOCKED]
   \<and> interactive (buttons (OpsSelectorScreen copy flags) ! 2)
     = (\<not> ROAD_CAPTAIN_ENABLED flags)
   \<and> press (buttons (OpsSelectorScreen copy flags) ! 2)
     = (if ROAD_CAPTAIN_ENABLED flags then [] else [NavNavigate ROAD_CAPTAIN_LOCKED])"
  by (simp add: buttons_OpsSelectorScreen interactive_def press_def)

theorem road_captain_button_witness:
  "press (buttons (OpsSelectorScreen
       \<lparr>copy_title = ''Ops'', copy_action_NIGHT_WATCH = ''Night Watch'',
        copy_action_FOREMAN = ''Foreman'', copy_action_ROAD_CAPTAIN = ''Road Captain''\<rparr>
       \<lparr>ROAD_CAPTAIN_ENABLED = False\<rparr>) ! 2)
     = [NavNavigate ROAD_CAPTAIN_LOCKED]
   \<and> press (buttons (OpsSelectorScreen
       \<lparr>copy_title = ''Ops'', copy_action_NIGHT_WATCH = ''Night Watch'',
        copy_action_FOREMAN = ''Foreman'', copy_action_ROAD_CAPTAIN = ''Road Captain''\<rparr>
       \<lparr>ROAD_CAPTAIN_ENABLED = True\<rparr>) ! 2) = []"
  using road_captain_button
          [of "\<lparr>copy_title = ''Ops'', copy_action_NIGHT_WATCH = ''Night Watch'',
                copy_action_FOREMAN = ''Foreman'',
                copy_action_ROAD_CAPTAIN = ''Road Captain''\<rparr>"
              "\<lparr>ROAD_CAPTAIN_ENABLED = False\<rparr>"]
        road_captain_button
          [of "\<lparr>copy_title = ''Ops'', copy_action_NIGHT_WATCH = ''Night Watch'',
                copy_action_FOREMAN = ''Foreman'',
                copy_action_ROAD_CAPTAIN = ''Road Captain''\<rparr>"
              "\<lparr>ROAD_CAPTAIN_ENABLED = True\<rparr>"]
  by simp

section \<open>Properties of the content sync\<close>

lemma syncContent_cut_complete: "4 \<le> k \<Longrightarrow> syncContent_cut k env db = syncContent env db"
  by (simp add: syncContent_cut_def syncContent_def split: sum.splits)

lemma syncContent_cut_frame:
  "operationalState (snd (syncContent_cut k env db)) = operationalState db
   \<and> sessionRecords (snd (syncContent_cut k env db)) = sessionRecords db
   \<and> journal (snd (syncContent_cut k env db)) = journal db"
  by (simp add: syncContent_cut_def split: sum.splits)

lemma syncContent_frame:
  "operationalState (snd (syncContent env db)) = operationalState db
   \<and> sessionRecords (snd (syncContent env db)) = sessionRecords db
   \<and> journal (snd (syncContent env db)) = journal db"
  by (simp add: syncContent_def split: sum.splits)

lemma sync_times_frame:
  "operationalState (snd (sync_times n env db)) = operationalState db
   \<and> sessionRecords (snd (sync_times n env db)) = sessionRecords db
   \<and> journal (snd (sync_times n env db)) = journal db"
proof (induction n arbitrary: db)
  case 0
  show ?case by simp
next
  case (Suc n)
  obtain calls db' where one: "syncContent env db = (calls, db')"
    by (cases "syncContent env db")
  have "operationalState db' = operationalState db
        \<and> sessionRecords db' = sessionRecords db \<and> journal db' = journal db"
    using syncContent_frame [of env db] one by simp
  with Suc [of db'] one show ?case
    by (simp add: split_beta)
qed

lemma cache_writes_append: "cache_writes (xs @ ys) = cache_writes xs @ cache_writes ys"
  by (induction xs rule: cache_writes.induct) simp_all

lemma cache_writes_syncContent:
  "cache_writes (fst (syncContent env db)) =
     (if networkAvailable env = Inr True
      then (case fetchRemoteContent env of Inl err \<Rightarrow> [] | Inr u \<Rightarrow> [u])
      else [])"
  by (simp add: syncContent_def split: sum.splits)

text \<open>
  C8 (as amended). Every run that finds the network available and fetches the remote
  content calls \<^verbatim>\<open>db.saveContent\<close> once with what it fetched, whatever the cache already
  holds: \<open>n\<close> runs with unchanged remote content make \<open>n\<close> cache-write calls, each with
  the same payload. Runs that are offline, or whose check or fetch throws, make none.
\<close>

theorem sync_writes_once_per_run:
  "cache_writes (fst (sync_times n env db)) =
     (if networkAvailable env = Inr True
      then (case fetchRemoteContent env of Inl err \<Rightarrow> [] | Inr u \<Rightarrow> replicate n u)
      else [])"
proof (induction n arbitrary: db)
  case 0
  show ?case by (simp split: sum.splits)
next
  case (Suc n)
  obtain calls db' where one: "syncContent env db = (calls, db')"
    by (cases "syncContent env db")
  have "cache_writes calls =
     (if networkAvailable env = Inr True
      then (case fetchRemoteContent env of Inl err \<Rightarrow> [] | Inr u \<Rightarrow> [u])
      else [])"
    using cache_writes_syncContent [of env db] one by simp
  with Suc [of db'] one show ?case
    by (simp add: split_beta cache_writes_append split: sum.splits)
qed

theorem sync_writes_once_per_run_witness:
  "cache_writes (fst (sync_times 3 online_env fresh_database)) =
     [[(1, ''script'')], [(1, ''script'')], [(1, ''script'')]]"
  using sync_writes_once_per_run [of 3 online_env fresh_database]
  by (simp add: online_env_def numeral_3_eq_3)

text \<open>
  C8 as stated fails: two runs with the same remote payload, online both times, call
  \<^verbatim>\<open>db.saveContent\<close> twice, although the second call leaves the cache as the first
  made it.
\<close>

theorem sync_twice_writes_twice:
  "cache_writes (fst (sync_times 2 online_env fresh_database))
     = [[(1, ''script'')], [(1, ''script'')]]
   \<and> contentCache (snd (sync_times 2 online_env fresh_database))
     = contentCache (snd (sync_times 1 online_env fresh_database))"
  by (simp add: numeral_2_eq_2 syncContent_def online_env_def fresh_database_def
        replace_rows_def)

text \<open>
  C9. A sync run changes nothing but ContentCacheEntry rows: the OperationalState, the
  SessionRecord table and the journal are the same after the run as before it, whatever
  the connectivity and the remote content, whether the run completes, fails or is cut off
  after any number of its calls, and however many runs follow each other.
\<close>

theorem sync_touches_cache_only:
  "operationalState (snd (syncContent env db)) = operationalState db
   \<and> sessionRecords (snd (syncContent env db)) = sessionRecords db
   \<and> journal (snd (syncContent env db)) = journal db
   \<and> operationalState (snd (syncContent_cut k env db)) = operationalState db
   \<and> sessionRecords (snd (syncContent_cut k env db)) = sessionRecords db
   \<and> journal (snd (syncContent_cut k env db)) = journal db
   \<and> operationalState (snd (sync_times n env db)) = operationalState db
   \<and> sessionRecords (snd (sync_times n env db)) = sessionRecords db
   \<and> journal (snd (sync_times n env db)) = journal db"
  using syncContent_frame [of env db] syncContent_cut_frame [of k env db]
        sync_times_frame [of n env db]
  by simp

section \<open>Properties of the journal and restart\<close>

lemma committed_mark_id: "committed e \<Longrightarrow> e\<lparr>committed := True\<rparr> = e"
  by (cases e) simp

lemma mark_all_committed:
  "list_all committed js \<Longrightarrow>
   map (\<lambda>e. if sequenceNumber e = n then e\<lparr>committed := True\<rparr> else e) js = js"
  by (induction js) (simp_all add: committed_mark_id)

lemma filter_all_committed: "list_all committed js \<Longrightarrow> filter committed js = js"
  by (induction js) simp_all

lemma last_committed_state_snoc_uncommitted:
  "\<not> committed e \<Longrightarrow> last_committed_state (js @ [e]) = last_committed_state js"
  by (simp add: last_committed_state_def)

lemma last_committed_state_snoc_committed:
  "committed e \<Longrightarrow> last_committed_state (js @ [e]) = state_of_entry e"
  by (simp add: last_committed_state_def)

lemma complete_transition_eq:
  "list_all committed (journal db) \<Longrightarrow>
   complete_transition i now db =
     db\<lparr>journal := journal db @
          [\<lparr>sequenceNumber = length (journal db), intent = i,
            targetState = crisisStateReducer (currentMode (operationalState db)) (intent_event i),
            timestamp = now, committed = True\<rparr>],
        operationalState := apply_mutation i now (operationalState db)\<rparr>"
  by (simp add: complete_transition_def step_append_def journal_append_def step_apply_def
        markCommitted_def mark_all_committed)

lemma restart_after_crash:
  assumes "consistent db"
  shows "restart (crashed_transition cp i now db)
           = ([length (journal db)], complete_transition i now db)"
proof -
  from assms have all: "list_all committed (journal db)"
    and st: "operationalState db = last_committed_state (journal db)"
    by (simp_all add: consistent_def)
  show ?thesis
    by (cases cp)
       (simp_all add: complete_transition_eq [OF all] restart_def step_append_def
          journal_append_def step_apply_def markCommitted_def mark_all_committed [OF all]
          last_committed_state_snoc_uncommitted st [symmetric] Let_def)
qed

lemma complete_consistent:
  assumes "consistent db"
  shows "consistent (complete_transition i now db)"
proof -
  from assms have all: "list_all committed (journal db)"
    and st: "operationalState db = last_committed_state (journal db)"
    by (simp_all add: consistent_def)
  show ?thesis
    by (simp add: complete_transition_eq [OF all] consistent_def all
          last_committed_state_snoc_committed state_of_entry_def apply_mutation_def)
qed

lemma restart_consistent:
  assumes "consistent db"
  shows "restart db = ([], db)"
proof -
  from assms have all: "list_all committed (journal db)"
    and st: "operationalState db = last_committed_state (journal db)"
    by (simp_all add: consistent_def)
  show ?thesis
  proof (cases "journal db")
    case Nil
    then show ?thesis using st by (simp add: restart_def)
  next
    case (Cons j js)
    then have "committed (last (journal db))"
      using all by (metis last_in_set list.distinct(1) list_all_iff)
    then show ?thesis using st Cons by (simp add: restart_def Let_def)
  qed
qed

lemma restart_ignores_stored_state:
  "restart (db\<lparr>operationalState := x\<rparr>)
     = (fst (restart db), snd (restart db))"
  by (simp add: restart_def Let_def markCommitted_def)

lemma fresh_database_consistent: "consistent fresh_database"
  by (simp add: consistent_def fresh_database_def last_committed_state_def
        initial_state_def RootNavigator_initialRouteName_def)

text \<open>
  C1. Take a store at rest and a transition whose intent has been journalled. Wherever the
  process stops between the append and the commit-mark (before or after the mutation was
  applied), restart yields exactly the store that completing the transition would have
  produced, and marks exactly that one entry committed. It does so from the journal alone:
  whatever OperationalState the crash left behind is ignored. A restart of the completed
  or repaired store marks nothing and changes nothing, and that store is at rest again.
\<close>

theorem crash_recovery_exact:
  assumes "consistent db"
  shows "restart (crashed_transition cp i now db)
           = ([length (journal db)], complete_transition i now db)
         \<and> restart ((crashed_transition cp i now db)\<lparr>operationalState := x\<rparr>)
           = ([length (journal db)], complete_transition i now db)
         \<and> restart (complete_transition i now db) = ([], complete_transition i now db)
         \<and> consistent (complete_transition i now db)"
  using restart_after_crash [OF assms, of cp i now]
        restart_ignores_stored_state [where db = "crashed_transition cp i now db" and x = x]
        restart_consistent [OF complete_consistent [OF assms, of i now]]
        complete_consistent [OF assms, of i now]
  by simp

theorem crash_recovery_exact_witness:
  "consistent night_watch_database
   \<and> restart (crashed_transition AfterApply
        \<lparr>intent_event = DEESCALATE, intent_route = NIGHT_WATCH, intent_context = Some 7\<rparr>
        20 night_watch_database)
     = ([1], complete_transition
        \<lparr>intent_event = DEESCALATE, intent_route = NIGHT_WATCH, intent_context = Some 7\<rparr>
        20 night_watch_database)
   \<and> currentMode (operationalState (complete_transition
        \<lparr>intent_event = DEESCALATE, intent_route = NIGHT_WATCH, intent_context = Some 7\<rparr>
        20 night_watch_database)) = recovery"
proof -
  have c: "consistent night_watch_database"
    by (simp add: consistent_def night_watch_database_def last_committed_state_def
          state_of_entry_def)
  have m: "currentMode (operationalState (complete_transition
        \<lparr>intent_event = DEESCALATE, intent_route = NIGHT_WATCH, intent_context = Some 7\<rparr>
        20 night_watch_database)) = recovery"
    by (simp add: complete_transition_def step_append_def journal_append_def
          step_apply_def markCommitted_def apply_mutation_def night_watch_database_def
          crisisStateReducer_def)
  have l: "length (journal night_watch_database) = 1"
    by (simp add: night_watch_database_def)
  from crash_recovery_exact [OF c, of AfterApply
        "\<lparr>intent_event = DEESCALATE, intent_route = NIGHT_WATCH, intent_context = Some 7\<rparr>"
        20] c m l
  show ?thesis by simp
qed

section \<open>Properties of the navigation guard\<close>




lemma requestTransition_consistent:
  assumes "consistent db"
  shows "consistent (snd (requestTransition cfg store req db))"
  using assms complete_consistent [OF assms]
  by (auto simp: requestTransition_def Let_def split: store_answer.splits)



section \<open>Properties of the mode-aware route guard\<close>




end
